theory Spec2Isabelle
  imports Complex_Main
begin

section \<open>Strings, characters and thrown values\<close>

text \<open>
  A JavaScript string is modelled as a HOL \<^typ>\<open>string\<close>: every \<^typ>\<open>char\<close> stands for one
  code unit below 256, and \<open>length\<close> is the string's \<open>length\<close>. Code points from 256 upwards
  (among them the white space characters from U+1680 on) are outside the model.

  A thrown value is either an \<open>Error\<close> object with its message (what every \<open>throw\<close> of the
  sources produces) or some other value, which \<open>error instanceof Error\<close> tells apart.
\<close>

datatype exn = Error string | NonError

text \<open>The class \<open>\s\<close> on code units below 256: tab, line feed, vertical tab, form feed,
  carriage return, space and the no-break space.\<close>

definition is_space :: "char \<Rightarrow> bool" where
  "is_space c = (c \<in> set [CHR 0x09, CHR 0x0A, CHR 0x0B, CHR 0x0C, CHR 0x0D, CHR '' '', CHR 0xA0])"

text \<open>The class \<open>\S\<close>.\<close>

definition non_space :: "char \<Rightarrow> bool" where
  "non_space c = (\<not> is_space c)"

text \<open>The class \<open>\d\<close>.\<close>

definition is_digit :: "char \<Rightarrow> bool" where
  "is_digit c = (c \<in> set ''0123456789'')"

text \<open>The class \<open>[a-zA-Z0-9_-]\<close> of the characters of a video identifier.\<close>

definition is_id_char :: "char \<Rightarrow> bool" where
  "is_id_char c =
     (c \<in> set ''abcdefghijklmnopqrstuvwxyzABCDEFGHIJKLMNOPQRSTUVWXYZ0123456789_-'')"

text \<open>The class \<open>[^\/\n\s]\<close>.\<close>

definition seg_char :: "char \<Rightarrow> bool" where
  "seg_char c = (c \<noteq> CHR ''/'' \<and> c \<noteq> CHR 0x0A \<and> \<not> is_space c)"

section \<open>Regular expressions with backtracking\<close>

text \<open>
  The regular expressions of the sources, as far as they use the syntax: characters and
  classes, sequence, alternative, the greedy option \<open>r?\<close>, the greedy repetitions \<open>c*\<close>,
  \<open>c+\<close> and \<open>c{n}\<close> of a class, the lazy repetition \<open>c*?\<close>, and capture groups. A
  matcher state is the captures so far and the input that is left. \<open>ms r st\<close> lists the
  states that matching \<open>r\<close> from \<open>st\<close> can end in, in the order in which backtracking
  tries them: the head of the list is the match.
\<close>

datatype re =
    Eps
  | Chr char
  | Cls "char \<Rightarrow> bool"
  | Seq re re
  | Alt re re
  | Opt re
  | Star "char \<Rightarrow> bool"
  | StarLazy "char \<Rightarrow> bool"
  | Plus "char \<Rightarrow> bool"
  | Rep nat "char \<Rightarrow> bool"
  | Grp nat re

type_synonym captures = "nat \<rightharpoonup> string"
type_synonym mstate = "captures \<times> string"

text \<open>A literal word is the sequence of its characters.\<close>

fun lit :: "string \<Rightarrow> re" where
  "lit [] = Eps"
| "lit (c # cs) = Seq (Chr c) (lit cs)"

text \<open>The inputs left by \<open>c*\<close>, the longest repetition first.\<close>

fun rep_cls :: "(char \<Rightarrow> bool) \<Rightarrow> string \<Rightarrow> string list" where
  "rep_cls p [] = [[]]"
| "rep_cls p (c # cs) = (if p c then rep_cls p cs @ [c # cs] else [c # cs])"

fun ms :: "re \<Rightarrow> mstate \<Rightarrow> mstate list" where
  "ms Eps st = [st]"
| "ms (Chr c) (g, s) = (case s of [] \<Rightarrow> [] | x # xs \<Rightarrow> if x = c then [(g, xs)] else [])"
| "ms (Cls p) (g, s) = (case s of [] \<Rightarrow> [] | x # xs \<Rightarrow> if p x then [(g, xs)] else [])"
| "ms (Seq a b) st = concat (map (ms b) (ms a st))"
| "ms (Alt a b) st = ms a st @ ms b st"
| "ms (Opt a) st = ms a st @ [st]"
| "ms (Star p) (g, s) = map (Pair g) (rep_cls p s)"
| "ms (StarLazy p) (g, s) = map (Pair g) (rev (rep_cls p s))"
| "ms (Plus p) (g, s) =
     (case s of [] \<Rightarrow> [] | x # xs \<Rightarrow> if p x then map (Pair g) (rep_cls p xs) else [])"
| "ms (Rep n p) (g, s) =
     (if n \<le> length s \<and> list_all p (take n s) then [(g, drop n s)] else [])"
| "ms (Grp i a) (g, s) =
     map (\<lambda>(g', s'). (g'(i \<mapsto> take (length s - length s') s), s')) (ms a (g, s))"

text \<open>\<open>RegExp.prototype.exec\<close> without the sticky and global flags: the match at the first
  position of the input that has one; \<open>None\<close> is \<open>null\<close>.\<close>

fun exec :: "re \<Rightarrow> string \<Rightarrow> captures option" where
  "exec r [] = (case ms r (Map.empty, []) of (g, _) # _ \<Rightarrow> Some g | [] \<Rightarrow> None)"
| "exec r (c # cs) =
     (case ms r (Map.empty, c # cs) of (g, _) # _ \<Rightarrow> Some g | [] \<Rightarrow> exec r cs)"

text \<open>\<open>/^r$/.test(s)\<close>: some way of matching \<open>r\<close> at the start uses up the input.\<close>

definition test_anchored :: "re \<Rightarrow> string \<Rightarrow> bool" where
  "test_anchored r s = list_ex (\<lambda>(g, rest). rest = []) (ms r (Map.empty, s))"

section \<open>String operations of the JavaScript library\<close>

text \<open>\<open>s.split(c)\<close> for a separator of one character: the pieces between the separators,
  empty pieces included; never the empty list.\<close>

fun split_on :: "char \<Rightarrow> string \<Rightarrow> string list" where
  "split_on sep [] = [[]]"
| "split_on sep (c # cs) =
     (if c = sep then [] # split_on sep cs
      else (case split_on sep cs of p # ps \<Rightarrow> (c # p) # ps | [] \<Rightarrow> [[c]]))"

text \<open>\<open>s.split(c, n)\<close>: the first \<open>n\<close> pieces.\<close>

definition split_limit :: "char \<Rightarrow> nat \<Rightarrow> string \<Rightarrow> string list" where
  "split_limit sep n s = take n (split_on sep s)"

text \<open>\<open>s.split(/\s+/)\<close>: the pieces between the maximal runs of white space.\<close>

function split_ws :: "string \<Rightarrow> string list" where
  "split_ws [] = [[]]"
| "split_ws (c # cs) =
     (if is_space c then [] # split_ws (dropWhile is_space cs)
      else (case split_ws cs of p # ps \<Rightarrow> (c # p) # ps | [] \<Rightarrow> [[c]]))"
  by pat_completeness auto
termination
  by (relation "measure length") (auto simp: length_dropWhile_le less_Suc_eq_le)

text \<open>\<open>xs.join(sep)\<close>\<close>

fun join :: "string \<Rightarrow> string list \<Rightarrow> string" where
  "join sep [] = []"
| "join sep [x] = x"
| "join sep (x # y # ys) = x @ sep @ join sep (y # ys)"

definition trim :: "string \<Rightarrow> string" where
  "trim s = rev (dropWhile is_space (rev (dropWhile is_space s)))"

text \<open>\<open>toLowerCase\<close> on code units below 256: the letters A to Z and the capital letters of
  Latin-1 (0xC0 to 0xDE without the multiplication sign 0xD7) move up by 32.\<close>

definition lower_char :: "char \<Rightarrow> char" where
  "lower_char c =
     (let n = (of_char c :: nat)
      in if (65 \<le> n \<and> n \<le> 90) \<or> (192 \<le> n \<and> n \<le> 222 \<and> n \<noteq> 215) then char_of (n + 32)
         else c)"

definition toLowerCase :: "string \<Rightarrow> string" where
  "toLowerCase s = map lower_char s"

text \<open>\<open>s.startsWith(p)\<close>\<close>

definition startsWith :: "string \<Rightarrow> string \<Rightarrow> bool" where
  "startsWith s p = (take (length p) s = p)"

text \<open>\<open>s.replace(/r/g, f)\<close> for a pattern \<open>r\<close> whose matches are not empty (every pattern of
  the sources that is used with the global flag): the leftmost match is replaced by what
  \<open>f\<close> makes of its captures and the search goes on behind it; where nothing matches, the
  character is copied.\<close>

function replace_all :: "re \<Rightarrow> (captures \<Rightarrow> string) \<Rightarrow> string \<Rightarrow> string" where
  "replace_all r f [] = []"
| "replace_all r f (c # cs) =
     (case ms r (Map.empty, c # cs) of
        (g, rest) # _ \<Rightarrow>
          if length rest \<le> length cs then f g @ replace_all r f rest
          else c # replace_all r f cs
      | [] \<Rightarrow> c # replace_all r f cs)"
  by pat_completeness auto
termination
  by (relation "measure (\<lambda>(r, f, s). length s)") auto

text \<open>Group \<open>i\<close> of a match as \<open>$i\<close> inserts it: the empty string when the group took no part.\<close>

definition group :: "captures \<Rightarrow> nat \<Rightarrow> string" where
  "group g i = (case g i of Some v \<Rightarrow> v | None \<Rightarrow> [])"

subsection \<open>Numbers and strings\<close>

text \<open>
  Numbers that the sources count, parse or print as integers are \<^typ>\<open>int\<close>: the model is
  exact where JavaScript's doubles are, below \<open>2^53\<close> in absolute value.
\<close>

definition digit_char :: "nat \<Rightarrow> char" where
  "digit_char d = char_of (48 + d)"

fun show_nat :: "nat \<Rightarrow> string" where
  "show_nat n = (if n < 10 then [digit_char n] else show_nat (n div 10) @ [digit_char (n mod 10)])"

declare show_nat.simps [simp del]

text \<open>\<open>n.toString()\<close> of an integer.\<close>

definition show_int :: "int \<Rightarrow> string" where
  "show_int i = (if i < 0 then CHR ''-'' # show_nat (nat (- i)) else show_nat (nat i))"

text \<open>\<open>s.padStart(n, '0')\<close>\<close>

definition padStart0 :: "nat \<Rightarrow> string \<Rightarrow> string" where
  "padStart0 n s = replicate (n - length s) CHR ''0'' @ s"

text \<open>The value of a digit in base 16 (base 10 uses the first ten).\<close>

definition digit_val :: "char \<Rightarrow> nat option" where
  "digit_val c =
     (let n = (of_char c :: nat)
      in if 48 \<le> n \<and> n \<le> 57 then Some (n - 48)
         else if 97 \<le> n \<and> n \<le> 102 then Some (n - 87)
         else if 65 \<le> n \<and> n \<le> 70 then Some (n - 55)
         else None)"

definition is_radix_digit :: "nat \<Rightarrow> char \<Rightarrow> bool" where
  "is_radix_digit radix c = (case digit_val c of Some d \<Rightarrow> d < radix | None \<Rightarrow> False)"

definition digits_value :: "nat \<Rightarrow> string \<Rightarrow> nat" where
  "digits_value radix ds = foldl (\<lambda>acc c. acc * radix + (case digit_val c of Some d \<Rightarrow> d | None \<Rightarrow> 0)) 0 ds"

text \<open>\<open>parseInt(s)\<close> without a radix: leading white space is skipped, a sign is read, the
  prefix \<open>0x\<close> or \<open>0X\<close> selects base 16, and the longest run of digits is the value;
  \<open>None\<close> is \<open>NaN\<close>, the result when there is no digit.\<close>

definition parseInt :: "string \<Rightarrow> int option" where
  "parseInt s =
     (let s1 = dropWhile is_space s;
          (neg, s2) = (case s1 of
                         c # cs \<Rightarrow> if c = CHR ''-'' then (True, cs)
                                   else if c = CHR ''+'' then (False, cs) else (False, s1)
                       | [] \<Rightarrow> (False, s1));
          (radix, s3) = (if take 2 s2 = ''0x'' \<or> take 2 s2 = ''0X'' then (16, drop 2 s2)
                         else (10, s2));
          ds = takeWhile (is_radix_digit radix) s3
      in if ds = [] then None
         else Some (if neg then - int (digits_value radix ds) else int (digits_value radix ds)))"

section \<open>Values, cache and network\<close>

text \<open>The values that the tools return and cache: JavaScript objects as lists of
  properties in the order of their creation.\<close>

datatype jsval =
    JUndefined
  | JNull
  | JBool bool
  | JNum int
  | JStr string
  | JArr "jsval list"
  | JObj "(string \<times> jsval) list"

text \<open>\<open>'k' in v\<close> for an object.\<close>

fun has_field :: "string \<Rightarrow> jsval \<Rightarrow> bool" where
  "has_field k (JObj fs) = (map_of fs k \<noteq> None)"
| "has_field k _ = False"

text \<open>A cache is a \<open>Map\<close> from keys to entries \<open>{data, timestamp}\<close>; every tool has its own.
  All four caches live for one hour, in milliseconds.\<close>

record cache_entry =
  data :: jsval
  timestamp :: int

type_synonym cache = "string \<rightharpoonup> cache_entry"

definition TRANSCRIPT_CACHE_TTL :: int where "TRANSCRIPT_CACHE_TTL = 3600 * 1000"
definition VIDEO_CACHE_TTL :: int where "VIDEO_CACHE_TTL = 3600 * 1000"
definition SEARCH_CACHE_TTL :: int where "SEARCH_CACHE_TTL = 3600 * 1000"
definition DOWNLOAD_CACHE_TTL :: int where "DOWNLOAD_CACHE_TTL = 3600 * 1000"

text \<open>
  What a request of \<open>fetch\<close> asks for: an endpoint written out by the source, or a path with
  the parameters of a \<open>URLSearchParams\<close> in the order of their \<open>append\<close> (their encoding by
  \<open>toString\<close> is not modelled).
\<close>

datatype request = Get string | GetQuery string "(string \<times> string) list"

text \<open>
  A response has the fields \<open>ok\<close> and \<open>statusText\<close>, and \<open>response.json()\<close> gives the body
  or throws. \<open>fetch\<close> itself gives a response or throws. The state of a tool is its cache
  and the requests it has sent so far, the oldest first.
\<close>

record 'r response =
  ok :: bool
  statusText :: string
  json :: "exn + 'r"

type_synonym 'r fetch = "request \<Rightarrow> exn + 'r response"

record tool_state =
  cache :: cache
  requests :: "request list"

text \<open>The check at the head of every adapter:
  \<^verbatim>\<open>cachedResult && (Date.now() - cachedResult.timestamp) < TTL\<close>; an entry is an object
  and so never falsy.\<close>

definition cache_hit :: "int \<Rightarrow> cache \<Rightarrow> string \<Rightarrow> int \<Rightarrow> jsval option" where
  "cache_hit ttl c k now =
     (case c k of
        Some cachedResult \<Rightarrow> if now - timestamp cachedResult < ttl then Some (data cachedResult) else None
      | None \<Rightarrow> None)"

section \<open>The identifier extractor (base-tool.ts)\<close>

text \<open>
  \<^verbatim>\<open>/(?:youtube\.com\/(?:[^\/\n\s]+\/\S+\/|(?:v|e(?:mbed)?)\/|watch\?(?:\S*&)?v=|shorts\/)|youtu\.be\/)([a-zA-Z0-9_-]{11})/\<close>
\<close>

definition youtube_paths :: re where
  "youtube_paths =
     Alt (Seq (Plus seg_char) (Seq (Chr CHR ''/'') (Seq (Plus non_space) (Chr CHR ''/''))))
    (Alt (Seq (Alt (Chr CHR ''v'') (Seq (Chr CHR ''e'') (Opt (lit ''mbed'')))) (Chr CHR ''/''))
    (Alt (Seq (lit ''watch?'') (Seq (Opt (Seq (Star non_space) (Chr CHR ''&''))) (lit ''v='')))
         (lit ''shorts/'')))"

definition youtube_pattern :: re where
  "youtube_pattern =
     Seq (Alt (Seq (lit ''youtube.com/'') youtube_paths) (lit ''youtu.be/''))
         (Grp 1 (Rep 11 is_id_char))"

text \<open>\<^verbatim>\<open>/^[a-zA-Z0-9_-]{11}$/\<close>\<close>

definition bare_id_pattern :: re where
  "bare_id_pattern = Rep 11 is_id_char"

text \<open>
  \<open>extractVideoId\<close> returns group 1 of the first match of the URL pattern, else the input
  itself when it is a bare identifier, else it throws. Group 1 takes part in every match
  of the pattern (lemma \<open>exec_youtube_group\<close> below), so the \<open>None\<close> case of \<open>match[1]\<close>
  is never reached.
\<close>

definition extractVideoId :: "string \<Rightarrow> exn + string" where
  "extractVideoId videoInput =
     (case exec youtube_pattern videoInput of
        Some match \<Rightarrow> Inr (case match 1 of Some v \<Rightarrow> v | None \<Rightarrow> [])
      | None \<Rightarrow>
          if test_anchored bare_id_pattern videoInput then Inr videoInput
          else Inl (Error (''Could not extract valid YouTube video ID from: '' @ videoInput)))"

section \<open>The transcript tool (transcript-tool.ts)\<close>

text \<open>What a call of an adapter sees of the outside: \<open>fetch\<close>, and the two readings of
  \<open>Date.now()\<close>, at the check of the cache and at the write to it.\<close>

record 'r world =
  fetch :: "'r fetch"
  now_check :: int
  now_store :: int

record TranscriptSegment =
  seg_text :: string
  seg_start :: rat
  seg_duration :: rat

text \<open>\<open>a % b\<close> on integers: the remainder has the sign of \<open>a\<close>.\<close>

definition js_rem :: "int \<Rightarrow> int \<Rightarrow> int" where
  "js_rem a b = sgn a * (\<bar>a\<bar> mod \<bar>b\<bar>)"

text \<open>The loop of \<open>formatTranscriptWithTimestamps\<close>: the lines pushed from the current
  minute on.\<close>

fun timestamp_lines :: "int \<Rightarrow> TranscriptSegment list \<Rightarrow> string list" where
  "timestamp_lines currentMinute [] = []"
| "timestamp_lines currentMinute (segment # segments) =
     (let seconds = \<lfloor>seg_start segment\<rfloor>;
          minutes = seconds div 60;
          remainingSeconds = js_rem seconds 60
      in if minutes > currentMinute
         then ([CHR 0x0A] @ ''['' @ show_int minutes @ '':'' @ padStart0 2 (show_int remainingSeconds) @ '']'')
              # seg_text segment # timestamp_lines minutes segments
         else seg_text segment # timestamp_lines currentMinute segments)"

text \<open>The class \<open>.\<close>: any character but a line terminator.\<close>

definition any_char :: "char \<Rightarrow> bool" where
  "any_char c = (c \<noteq> CHR 0x0A \<and> c \<noteq> CHR 0x0D)"

definition formatTranscriptWithTimestamps :: "TranscriptSegment list \<Rightarrow> string" where
  "formatTranscriptWithTimestamps segments =
     (let lines = timestamp_lines (- 1) segments;
          result = join '' '' lines;
          result = replace_all (Plus is_space) (\<lambda>g. '' '') result;
          result = replace_all
                     (Seq (Chr CHR ''['')
                       (Seq (Grp 1 (Seq (Plus is_digit) (Seq (Chr CHR '':'') (Plus is_digit))))
                         (Seq (Chr CHR '']'') (Plus is_space))))
                     (\<lambda>g. [CHR 0x0A] @ ''['' @ group g 1 @ ''] '') result;
          result = replace_all (Seq (Cls is_space) (Grp 1 (Cls (\<lambda>c. c \<in> set ''.,;:!?''))))
                     (\<lambda>g. group g 1) result
      in trim result)"

text \<open>\<open>processTranscript\<close>; \<open>None\<close> is a body that is \<open>null\<close> or \<open>undefined\<close>.\<close>

definition processTranscript :: "TranscriptSegment list option \<Rightarrow> string \<Rightarrow> string option \<Rightarrow> jsval" where
  "processTranscript transcriptData videoId language =
     (case transcriptData of
        None \<Rightarrow> JObj [(''error'', JStr ''No transcript available for this video''),
                       (''videoId'', JStr videoId)]
      | Some segments \<Rightarrow>
          if length segments = 0
          then JObj [(''error'', JStr ''No transcript available for this video''),
                     (''videoId'', JStr videoId)]
          else
            let fullText = join '' '' (map seg_text segments);
                fullText = replace_all (Plus is_space) (\<lambda>g. '' '') fullText;
                fullText = replace_all
                             (Seq (Chr CHR ''['') (Seq (StarLazy any_char) (Chr CHR '']'')))
                             (\<lambda>g. []) fullText;
                fullText = replace_all (Seq (Cls is_space) (Grp 1 (Cls (\<lambda>c. c \<in> set ''.,;!?''))))
                             (\<lambda>g. group g 1) fullText;
                summary = join '' '' (take 100 (split_on CHR '' '' fullText))
                          @ (if length (split_on CHR '' '' fullText) > 100 then ''...'' else []);
                formattedTranscript = formatTranscriptWithTimestamps segments
            in JObj [(''videoId'', JStr videoId),
                     (''transcript'', JStr fullText),
                     (''formattedTranscript'', JStr formattedTranscript),
                     (''language'', JStr (case language of
                                            Some l \<Rightarrow> if l \<noteq> [] then l else ''auto''
                                          | None \<Rightarrow> ''auto'')),
                     (''length'', JNum (int (length fullText))),
                     (''wordCount'', JNum (int (length (split_on CHR '' '' fullText)))),
                     (''summary'', JStr summary)])"

text \<open>The cache key and the endpoint of \<open>fetchTranscript\<close>; a language that is undefined
  or empty is falsy.\<close>

definition transcript_cacheKey :: "string \<Rightarrow> string option \<Rightarrow> string" where
  "transcript_cacheKey videoId language =
     videoId @ (case language of Some l \<Rightarrow> if l \<noteq> [] then ''_'' @ l else [] | None \<Rightarrow> [])"

definition transcript_endpoint :: "string \<Rightarrow> string option \<Rightarrow> request" where
  "transcript_endpoint videoId language =
     Get (case language of
            Some l \<Rightarrow> if l \<noteq> [] then ''/api/youtube/transcript?videoId='' @ videoId @ ''&language='' @ l
                      else ''/api/youtube/transcript?videoId='' @ videoId
          | None \<Rightarrow> ''/api/youtube/transcript?videoId='' @ videoId)"

text \<open>\<open>fetchTranscript\<close>: the result or the thrown value, and the state behind. The
  \<open>catch\<close> of the function logs and throws again.\<close>

definition fetchTranscript ::
  "TranscriptSegment list option world \<Rightarrow> tool_state \<Rightarrow> string \<Rightarrow> string option
     \<Rightarrow> (exn + jsval) \<times> tool_state" where
  "fetchTranscript w st videoId language =
     (let cacheKey = transcript_cacheKey videoId language
      in case cache_hit TRANSCRIPT_CACHE_TTL (cache st) cacheKey (now_check w) of
           Some cached \<Rightarrow> (Inr cached, st)
         | None \<Rightarrow>
             let endpoint = transcript_endpoint videoId language;
                 st1 = st\<lparr>requests := requests st @ [endpoint]\<rparr>
             in case fetch w endpoint of
                  Inl e \<Rightarrow> (Inl e, st1)
                | Inr response \<Rightarrow>
                    if \<not> ok response
                    then (Inl (Error (''Failed to fetch transcript: '' @ statusText response)), st1)
                    else
                      (case json response of
                         Inl e \<Rightarrow> (Inl e, st1)
                       | Inr body \<Rightarrow>
                           let processed = processTranscript body videoId language
                           in (Inr processed,
                               st1\<lparr>cache := (cache st1)(cacheKey \<mapsto>
                                     \<lparr>data = processed, timestamp = now_store w\<rparr>)\<rparr>)))"

text \<open>The \<open>catch\<close> of \<open>youtubeTranscriptTool.execute\<close> turns a thrown value into an object.\<close>

fun transcript_catch :: "exn \<Rightarrow> jsval" where
  "transcript_catch (Error message) =
     JObj [(''error'', JStr message),
           (''type'', JStr ''transcript_error''),
           (''details'', JStr ''This video likely does not have available transcripts or subtitles.'')]"
| "transcript_catch NonError =
     JObj [(''error'', JStr ''An unexpected error occurred while fetching the transcript''),
           (''type'', JStr ''system_error'')]"

text \<open>\<open>youtubeTranscriptTool.execute\<close>: \<open>try\<close> the parsing, the extraction and the fetch.\<close>

definition youtubeTranscriptTool_execute ::
  "TranscriptSegment list option world \<Rightarrow> tool_state \<Rightarrow> string \<Rightarrow> (exn + jsval) \<times> tool_state" where
  "youtubeTranscriptTool_execute w st input =
     (let parts = split_limit CHR ''|'' 2 input;
          videoInput = trim (case parts of p # _ \<Rightarrow> p | [] \<Rightarrow> []);
          language = (if length parts > 1 then Some (trim (parts ! 1)) else None)
      in case (case extractVideoId videoInput of
                 Inl e \<Rightarrow> (Inl e, st)
               | Inr videoId \<Rightarrow> fetchTranscript w st videoId language) of
           (Inr v, st') \<Rightarrow> (Inr v, st')
         | (Inl e, st') \<Rightarrow> (Inr (transcript_catch e), st'))"

section \<open>The video tool (video-tool.ts)\<close>

text \<open>
  \<open>fetchVideoInfo\<close>. Its shaping step \<open>processVideoInfo\<close> prints numbers with
  \<open>Number.prototype.toFixed\<close>, floating point arithmetic, and is a parameter here: a
  function of the body that returns an object or throws.
\<close>

definition fetchVideoInfo ::
  "(jsval \<Rightarrow> exn + jsval) \<Rightarrow> jsval world \<Rightarrow> tool_state \<Rightarrow> string \<Rightarrow> (exn + jsval) \<times> tool_state" where
  "fetchVideoInfo processVideoInfo w st videoId =
     (case cache_hit VIDEO_CACHE_TTL (cache st) videoId (now_check w) of
        Some cached \<Rightarrow> (Inr cached, st)
      | None \<Rightarrow>
          let endpoint = Get (''/api/youtube/video?videoId='' @ videoId);
              st1 = st\<lparr>requests := requests st @ [endpoint]\<rparr>
          in case fetch w endpoint of
               Inl e \<Rightarrow> (Inl e, st1)
             | Inr response \<Rightarrow>
                 if \<not> ok response
                 then (Inl (Error (''Failed to fetch video info: '' @ statusText response)), st1)
                 else
                   (case json response of
                      Inl e \<Rightarrow> (Inl e, st1)
                    | Inr body \<Rightarrow>
                        (case processVideoInfo body of
                           Inl e \<Rightarrow> (Inl e, st1)
                         | Inr processed \<Rightarrow>
                             (Inr processed,
                              st1\<lparr>cache := (cache st1)(videoId \<mapsto>
                                    \<lparr>data = processed, timestamp = now_store w\<rparr>)\<rparr>))))"

text \<open>The \<open>catch\<close> of \<open>youtubeVideoTool.execute\<close>.\<close>

fun video_catch :: "string \<Rightarrow> exn \<Rightarrow> jsval" where
  "video_catch input (Error message) =
     JObj [(''error'', JStr message),
           (''videoId'', if length input = 11 then JStr input else JUndefined),
           (''type'', JStr ''video_info_error'')]"
| "video_catch input NonError =
     JObj [(''error'', JStr ''An unexpected error occurred while fetching video information''),
           (''type'', JStr ''system_error'')]"

definition youtubeVideoTool_execute ::
  "(jsval \<Rightarrow> exn + jsval) \<Rightarrow> jsval world \<Rightarrow> tool_state \<Rightarrow> string \<Rightarrow> (exn + jsval) \<times> tool_state" where
  "youtubeVideoTool_execute processVideoInfo w st input =
     (case (case extractVideoId (trim input) of
              Inl e \<Rightarrow> (Inl e, st)
            | Inr videoId \<Rightarrow> fetchVideoInfo processVideoInfo w st videoId) of
        (Inr v, st') \<Rightarrow> (Inr v, st')
      | (Inl e, st') \<Rightarrow> (Inr (video_catch input e), st'))"

section \<open>The discovery tool (discovery-tool.ts)\<close>

text \<open>The search parameters; \<open>sort\<close> and \<open>duration\<close> hold the words of the input, and a
  \<open>duration\<close> of \<open>None\<close> is \<open>null\<close>.\<close>

record SearchParams =
  sp_count :: int
  sp_sort :: string
  sp_recent :: bool
  sp_minViews :: int
  sp_duration :: "string option"

definition default_params :: SearchParams where
  "default_params =
     \<lparr>sp_count = 5, sp_sort = ''relevance'', sp_recent = False, sp_minViews = 0, sp_duration = None\<rparr>"

text \<open>The body of the loop over the parameter tokens. Splitting a token that contains
  \<open>=\<close> gives a key and a value, so the last case is never reached.\<close>

definition apply_param :: "SearchParams \<Rightarrow> string \<Rightarrow> SearchParams" where
  "apply_param params param =
     (let trimmed = trim param
      in if CHR ''='' \<in> set trimmed
         then (case map (\<lambda>part. toLowerCase (trim part)) (split_limit CHR ''='' 2 trimmed) of
                 key # value # _ \<Rightarrow>
                   if key = ''count''
                   then (case parseInt value of
                           Some count \<Rightarrow> params\<lparr>sp_count := min count 20\<rparr>
                         | None \<Rightarrow> params)
                   else if key = ''sort'' \<and> value \<in> set [''relevance'', ''date'', ''views'', ''rating'']
                   then params\<lparr>sp_sort := value\<rparr>
                   else if key = ''recent'' \<and> value \<in> set [''true'', ''yes'', ''1'']
                   then params\<lparr>sp_recent := True\<rparr>
                   else if key = ''min_views''
                   then (case parseInt value of
                           Some minViews \<Rightarrow> params\<lparr>sp_minViews := minViews\<rparr>
                         | None \<Rightarrow> params)
                   else if key = ''duration'' \<and> value \<in> set [''short'', ''medium'', ''long'']
                   then params\<lparr>sp_duration := Some value\<rparr>
                   else params
               | _ \<Rightarrow> params)
         else params)"

text \<open>\<open>parseInput\<close> of the discovery tool.\<close>

definition discovery_parseInput :: "string \<Rightarrow> string \<times> SearchParams" where
  "discovery_parseInput input =
     (let parts = split_limit CHR ''|'' 2 input;
          query = trim (case parts of p # _ \<Rightarrow> p | [] \<Rightarrow> [])
      in if length parts > 1
         then let paramParts = (if CHR '','' \<in> set (parts ! 1) then split_on CHR '','' (parts ! 1)
                                else split_on CHR ''|'' (parts ! 1))
              in (query, foldl apply_param default_params paramParts)
         else (query, default_params))"

text \<open>\<open>JSON.stringify(params)\<close>; the words of \<open>sort\<close> and \<open>duration\<close> need no escapes.\<close>

definition stringify_params :: "SearchParams \<Rightarrow> string" where
  "stringify_params params =
     ''{\"count\":'' @ show_int (sp_count params)
     @ '',\"sort\":\"'' @ sp_sort params @ ''\"''
     @ '',\"recent\":'' @ (if sp_recent params then ''true'' else ''false'')
     @ '',\"minViews\":'' @ show_int (sp_minViews params)
     @ '',\"duration\":'' @ (case sp_duration params of None \<Rightarrow> ''null'' | Some d \<Rightarrow> ''\"'' @ d @ ''\"'')
     @ ''}''"

definition search_cacheKey :: "string \<Rightarrow> SearchParams \<Rightarrow> string" where
  "search_cacheKey query params = query @ ''_'' @ stringify_params params"

definition search_request :: "string \<Rightarrow> SearchParams \<Rightarrow> request" where
  "search_request query params =
     GetQuery ''/api/youtube/search''
       ([(''q'', query), (''count'', show_int (sp_count params)), (''sort'', sp_sort params)]
        @ (if sp_recent params then [(''recent'', ''true'')] else [])
        @ (if sp_minViews params > 0 then [(''minViews'', show_int (sp_minViews params))] else [])
        @ (case sp_duration params of Some d \<Rightarrow> if d \<noteq> [] then [(''duration'', d)] else [] | None \<Rightarrow> [])
        @ (if startsWith query ''channel:''
           then [(''channelId'', trim (drop 8 query)), (''type'', ''channel'')]
           else if startsWith query ''playlist:''
           then [(''playlistId'', trim (drop 9 query)), (''type'', ''playlist'')]
           else [(''type'', ''search'')]))"

text \<open>
  \<open>searchVideos\<close> of the discovery tool. Its shaping step \<open>processSearchResults\<close> prints
  view counts with \<open>Number.prototype.toFixed\<close> and is a parameter here, as in the video
  tool.
\<close>

definition searchVideos ::
  "(jsval \<Rightarrow> string \<Rightarrow> SearchParams \<Rightarrow> exn + jsval) \<Rightarrow> jsval world \<Rightarrow> tool_state \<Rightarrow> string
     \<Rightarrow> SearchParams \<Rightarrow> (exn + jsval) \<times> tool_state" where
  "searchVideos processSearchResults w st query params =
     (let cacheKey = search_cacheKey query params
      in case cache_hit SEARCH_CACHE_TTL (cache st) cacheKey (now_check w) of
           Some cached \<Rightarrow> (Inr cached, st)
         | None \<Rightarrow>
             let endpoint = search_request query params;
                 st1 = st\<lparr>requests := requests st @ [endpoint]\<rparr>
             in case fetch w endpoint of
                  Inl e \<Rightarrow> (Inl e, st1)
                | Inr response \<Rightarrow>
                    if \<not> ok response
                    then (Inl (Error (''Search failed: '' @ statusText response)), st1)
                    else
                      (case json response of
                         Inl e \<Rightarrow> (Inl e, st1)
                       | Inr body \<Rightarrow>
                           (case processSearchResults body query params of
                              Inl e \<Rightarrow> (Inl e, st1)
                            | Inr processed \<Rightarrow>
                                (Inr processed,
                                 st1\<lparr>cache := (cache st1)(cacheKey \<mapsto>
                                       \<lparr>data = processed, timestamp = now_store w\<rparr>)\<rparr>))))"

text \<open>The \<open>catch\<close> of \<open>youtubeDiscoveryTool.execute\<close>.\<close>

fun discovery_catch :: "string \<Rightarrow> exn \<Rightarrow> jsval" where
  "discovery_catch input (Error message) =
     JObj [(''error'', JStr message), (''query'', JStr input), (''type'', JStr ''search_error'')]"
| "discovery_catch input NonError =
     JObj [(''error'', JStr ''An unexpected error occurred while searching''),
           (''type'', JStr ''system_error'')]"

definition youtubeDiscoveryTool_execute ::
  "(jsval \<Rightarrow> string \<Rightarrow> SearchParams \<Rightarrow> exn + jsval) \<Rightarrow> jsval world \<Rightarrow> tool_state \<Rightarrow> string
     \<Rightarrow> (exn + jsval) \<times> tool_state" where
  "youtubeDiscoveryTool_execute processSearchResults w st input =
     (let (query, params) = discovery_parseInput input
      in if query = []
         then (Inr (JObj [(''error'', JStr ''Please provide a search query''),
                          (''type'', JStr ''search_error'')]), st)
         else
           (case searchVideos processSearchResults w st query params of
              (Inr v, st') \<Rightarrow> (Inr v, st')
            | (Inl e, st') \<Rightarrow> (Inr (discovery_catch input e), st')))"

section \<open>The download tool (download-tool.ts)\<close>

datatype DownloadMode = metadata_only | audio_info | formats

fun mode_name :: "DownloadMode \<Rightarrow> string" where
  "mode_name metadata_only = ''metadata_only''"
| "mode_name audio_info = ''audio_info''"
| "mode_name formats = ''formats''"

text \<open>\<open>parseInput\<close> of the download tool; the extraction may throw.\<close>

definition download_parseInput :: "string \<Rightarrow> exn + (string \<times> DownloadMode)" where
  "download_parseInput input =
     (let parts = split_limit CHR ''|'' 2 input;
          videoInput = trim (case parts of p # _ \<Rightarrow> p | [] \<Rightarrow> []);
          mode = (if length parts > 1
                  then let param = toLowerCase (trim (parts ! 1))
                       in if param = ''audio_info'' then audio_info
                          else if param = ''formats'' then formats
                          else metadata_only
                  else metadata_only)
      in case extractVideoId videoInput of
           Inl e \<Rightarrow> Inl e
         | Inr videoId \<Rightarrow> Inr (videoId, mode))"

text \<open>
  \<open>getVideoInfo\<close>. The shaping step is \<open>processVideoMetadata\<close>, \<open>processAudioStreams\<close>
  or \<open>processFormats\<close> by the mode; they print numbers with \<open>toFixed\<close>, and the
  parameter \<open>process\<close> stands for the three.
\<close>

definition getVideoInfo ::
  "(DownloadMode \<Rightarrow> jsval \<Rightarrow> exn + jsval) \<Rightarrow> jsval world \<Rightarrow> tool_state \<Rightarrow> string \<Rightarrow> DownloadMode
     \<Rightarrow> (exn + jsval) \<times> tool_state" where
  "getVideoInfo process w st videoId mode =
     (let cacheKey = videoId @ ''_'' @ mode_name mode
      in case cache_hit DOWNLOAD_CACHE_TTL (cache st) cacheKey (now_check w) of
           Some cached \<Rightarrow> (Inr cached, st)
         | None \<Rightarrow>
             let endpoint = Get (''/api/youtube/download?videoId='' @ videoId @ ''&mode='' @ mode_name mode);
                 st1 = st\<lparr>requests := requests st @ [endpoint]\<rparr>
             in case fetch w endpoint of
                  Inl e \<Rightarrow> (Inl e, st1)
                | Inr response \<Rightarrow>
                    if \<not> ok response
                    then (Inl (Error (''Failed to get video information: '' @ statusText response)), st1)
                    else
                      (case json response of
                         Inl e \<Rightarrow> (Inl e, st1)
                       | Inr body \<Rightarrow>
                           (case process mode body of
                              Inl e \<Rightarrow> (Inl e, st1)
                            | Inr processed \<Rightarrow>
                                (Inr processed,
                                 st1\<lparr>cache := (cache st1)(cacheKey \<mapsto>
                                       \<lparr>data = processed, timestamp = now_store w\<rparr>)\<rparr>))))"

text \<open>The \<open>catch\<close> of \<open>youtubeDownloadTool.execute\<close>.\<close>

fun download_catch :: "string \<Rightarrow> exn \<Rightarrow> jsval" where
  "download_catch input (Error message) =
     JObj [(''error'', JStr message),
           (''videoId'', if length input = 11 then JStr input else JUndefined),
           (''type'', JStr ''download_error'')]"
| "download_catch input NonError =
     JObj [(''error'', JStr ''An unexpected error occurred while processing video information''),
           (''type'', JStr ''system_error'')]"

definition youtubeDownloadTool_execute ::
  "(DownloadMode \<Rightarrow> jsval \<Rightarrow> exn + jsval) \<Rightarrow> jsval world \<Rightarrow> tool_state \<Rightarrow> string
     \<Rightarrow> (exn + jsval) \<times> tool_state" where
  "youtubeDownloadTool_execute process w st input =
     (case (case download_parseInput input of
              Inl e \<Rightarrow> (Inl e, st)
            | Inr (videoId, mode) \<Rightarrow> getVideoInfo process w st videoId mode) of
        (Inr v, st') \<Rightarrow> (Inr v, st')
      | (Inl e, st') \<Rightarrow> (Inr (download_catch input e), st'))"

section \<open>The route handlers\<close>

subsection \<open>Duration of a video (video/route.ts)\<close>




subsection \<open>The filter for recent videos (search/route.ts)\<close>

text \<open>
  Of an item of the search library the filter reads \<open>uploadedAt\<close>, a string or \<open>null\<close>.
  \<open>new Date(s)\<close> is a parameter: the time in milliseconds, or \<open>None\<close> for an invalid
  date, whose comparison with any date is false. \<open>twoYearsAgo\<close> is the time that
  \<open>setFullYear\<close> computes from the clock.
\<close>

record video =
  video_id :: string
  uploadedAt :: "string option"

definition recent_keep :: "(string \<Rightarrow> int option) \<Rightarrow> int \<Rightarrow> video \<Rightarrow> bool" where
  "recent_keep newDate twoYearsAgo v =
     (case uploadedAt v of
        None \<Rightarrow> True
      | Some u \<Rightarrow>
          if u = [] then True
          else (case newDate u of Some uploadDate \<Rightarrow> uploadDate > twoYearsAgo | None \<Rightarrow> False))"

text \<open>The step \<open>if (options.recent) { videos = videos.filter(...) }\<close> of \<open>searchVideos\<close>.\<close>

definition recent_filter :: "(string \<Rightarrow> int option) \<Rightarrow> int \<Rightarrow> bool \<Rightarrow> video list \<Rightarrow> video list" where
  "recent_filter newDate twoYearsAgo recent videos =
     (if recent then filter (recent_keep newDate twoYearsAgo) videos else videos)"

subsection \<open>The catalogue of formats (download/route.ts)\<close>













subsection \<open>The transcript of the route (transcript/route.ts)\<close>

text \<open>The loop of the route's \<open>formatTranscriptWithTimestamps\<close>: the text appended from
  the current minute on.\<close>

fun route_timestamp_text :: "int \<Rightarrow> TranscriptSegment list \<Rightarrow> string" where
  "route_timestamp_text currentMinute [] = []"
| "route_timestamp_text currentMinute (item # items) =
     (let seconds = \<lfloor>seg_start item\<rfloor>;
          minutes = seconds div 60;
          remainingSeconds = js_rem seconds 60
      in if minutes > currentMinute
         then [CHR 0x0A] @ ''['' @ show_int minutes @ '':'' @ padStart0 2 (show_int remainingSeconds) @ ''] ''
              @ seg_text item @ '' '' @ route_timestamp_text minutes items
         else seg_text item @ '' '' @ route_timestamp_text currentMinute items)"

definition route_formatTranscriptWithTimestamps :: "TranscriptSegment list \<Rightarrow> string" where
  "route_formatTranscriptWithTimestamps transcript = trim (route_timestamp_text (- 1) transcript)"

text \<open>
  The object that \<open>fetchTranscriptDirectly\<close> returns once the caption track is found and
  its XML is parsed into \<open>transcript\<close>; \<open>languageCode\<close> is that of the track.
\<close>

definition fetchTranscriptDirectly_result ::
  "string \<Rightarrow> string option \<Rightarrow> TranscriptSegment list \<Rightarrow> jsval" where
  "fetchTranscriptDirectly_result videoId languageCode transcript =
     JObj [(''videoId'', JStr videoId),
           (''transcript'', JStr (join '' '' (map seg_text transcript))),
           (''formattedTranscript'', JStr (route_formatTranscriptWithTimestamps transcript)),
           (''language'', JStr (case languageCode of
                                  Some l \<Rightarrow> if l \<noteq> [] then l else ''auto''
                                | None \<Rightarrow> ''auto'')),
           (''length'', JNum (int (length (join '' '' (map seg_text transcript))))),
           (''wordCount'', JNum (int (length (split_ws (join '' '' (map seg_text transcript)))))),
           (''summary'', JStr (join '' '' (take 100 (split_ws (join '' '' (map seg_text transcript))))
                               @ ''...''))]"

text \<open>\<open>v.k\<close> for an object.\<close>

fun get_field :: "string \<Rightarrow> jsval \<Rightarrow> jsval" where
  "get_field k (JObj fs) = (case map_of fs k of Some v \<Rightarrow> v | None \<Rightarrow> JUndefined)"
| "get_field k _ = JUndefined"

section \<open>Notions used in the statements\<close>







text \<open>A key with a value that the discovery tool accepts for it.\<close>

definition known_param :: "string \<Rightarrow> string \<Rightarrow> bool" where
  "known_param key value =
     (key = ''count'' \<and> parseInt value \<noteq> None
      \<or> key = ''sort'' \<and> value \<in> set [''relevance'', ''date'', ''views'', ''rating'']
      \<or> key = ''recent'' \<and> value \<in> set [''true'', ''yes'', ''1'']
      \<or> key = ''min_views'' \<and> parseInt value \<noteq> None
      \<or> key = ''duration'' \<and> value \<in> set [''short'', ''medium'', ''long''])"

text \<open>The key of a token \<open>key=value\<close> is what stands before the first \<open>=\<close>, the value what
  stands between the first and the second; both trimmed and in lower case.\<close>

definition token_key :: "string \<Rightarrow> string" where
  "token_key param = toLowerCase (trim (takeWhile (\<lambda>c. c \<noteq> CHR ''='') (trim param)))"

definition token_value :: "string \<Rightarrow> string" where
  "token_value param =
     toLowerCase (trim (takeWhile (\<lambda>c. c \<noteq> CHR ''='')
                          (drop 1 (dropWhile (\<lambda>c. c \<noteq> CHR ''='') (trim param)))))"

text \<open>A token that is not of the form \<open>key=value\<close>, or whose key is unknown, or whose value is
  invalid for its key.\<close>

definition ignored_token :: "string \<Rightarrow> bool" where
  "ignored_token param =
     (CHR ''='' \<notin> set (trim param) \<or> \<not> known_param (token_key param) (token_value param))"

text \<open>The parameter tokens of an input of the discovery tool: the pieces of what stands
  between the first and the second \<open>|\<close>, split at commas if there is one.\<close>

definition param_tokens :: "string \<Rightarrow> string list" where
  "param_tokens input =
     (case split_limit CHR ''|'' 2 input of
        [_, ps] \<Rightarrow> if CHR '','' \<in> set ps then split_on CHR '','' ps else split_on CHR ''|'' ps
      | _ \<Rightarrow> [])"






text \<open>An entry for the key exists and is younger than the time to live.\<close>

definition fresh :: "int \<Rightarrow> cache \<Rightarrow> string \<Rightarrow> int \<Rightarrow> bool" where
  "fresh ttl c k now = (case c k of Some e \<Rightarrow> now - timestamp e < ttl | None \<Rightarrow> False)"

text \<open>An object with an \<open>error\<close> field and a \<open>type\<close> field that holds one of the tags.\<close>

definition error_with_type :: "string list \<Rightarrow> jsval \<Rightarrow> bool" where
  "error_with_type tags v = (has_field ''error'' v \<and> get_field ''type'' v \<in> set (map JStr tags))"

text \<open>For the examples: a world in which every request is answered with status ok and the
  given body, at the given time (the write to the cache comes 5 ms later); the state of a
  tool that has just started; a state with one cache entry written at time 1000; and a
  transcript of one segment.\<close>

definition world_ok :: "int \<Rightarrow> 'r \<Rightarrow> 'r world" where
  "world_ok now body =
     \<lparr>fetch = (\<lambda>r. Inr \<lparr>ok = True, statusText = ''OK'', json = Inr body\<rparr>),
      now_check = now, now_store = now + 5\<rparr>"

definition initial_state :: tool_state where
  "initial_state = \<lparr>cache = Map.empty, requests = []\<rparr>"

definition example_payload :: jsval where
  "example_payload = JObj [(''videoId'', JStr ''dQw4w9WgXcQ''), (''title'', JStr ''a title'')]"

definition example_state :: tool_state where
  "example_state =
     \<lparr>cache = [''dQw4w9WgXcQ'' \<mapsto> \<lparr>data = example_payload, timestamp = 1000\<rparr>], requests = []\<rparr>"

definition example_transcript :: "TranscriptSegment list" where
  "example_transcript = [\<lparr>seg_text = ''hello world'', seg_start = 0, seg_duration = 2\<rparr>]"

definition no_transcript_payload :: jsval where
  "no_transcript_payload =
     JObj [(''error'', JStr ''No transcript available for this video''),
           (''videoId'', JStr ''dQw4w9WgXcQ'')]"

text \<open>For the examples: a \<open>new Date\<close> that reads one date (as milliseconds since 1970) and
  finds every other string invalid, and three items of a search.\<close>

definition example_newDate :: "string \<Rightarrow> int option" where
  "example_newDate s = (if s = ''2026-01-01'' then Some 1767225600000 else None)"

definition example_videos :: "video list" where
  "example_videos =
     [\<lparr>video_id = ''a'', uploadedAt = None\<rparr>,
      \<lparr>video_id = ''b'', uploadedAt = Some ''3 weeks ago''\<rparr>,
      \<lparr>video_id = ''c'', uploadedAt = Some ''2026-01-01''\<rparr>]"



section \<open>Properties of the matcher\<close>

lemma ms_lit: "st' \<in> set (ms (lit w) st) \<Longrightarrow> snd st = w @ snd st' \<and> fst st' = fst st"
proof (induction w arbitrary: st)
  case Nil
  then show ?case by simp
next
  case (Cons c w)
  obtain g s where st: "st = (g, s)" by (cases st)
  from Cons.prems st obtain x xs where s: "s = x # xs" by (cases s) auto
  with Cons.prems st have "x = c" and "st' \<in> set (ms (lit w) (g, xs))"
    by (auto split: if_splits)
  with Cons.IH [of "(g, xs)"] st s show ?case by simp
qed
lemma ms_Seq_in: "st' \<in> set (ms (Seq a b) st) \<longleftrightarrow> (\<exists>m \<in> set (ms a st). st' \<in> set (ms b m))"
  by auto
lemma ms_Alt_in: "st' \<in> set (ms (Alt a b) st) \<longleftrightarrow> st' \<in> set (ms a st) \<or> st' \<in> set (ms b st)"
  by auto
lemma ms_Grp_Rep:
  assumes "(g', r) \<in> set (ms (Grp i (Rep n p)) (g, s))"
  shows "g' i = Some (take n s) \<and> n \<le> length s \<and> list_all p (take n s) \<and> r = drop n s"
  using assms by (auto split: if_splits)
lemma exec_Some_ms: "exec r s = Some g \<Longrightarrow> \<exists>k rest. (g, rest) \<in> set (ms r (Map.empty, drop k s))"
proof (induction s)
  case Nil
  then show ?case by (cases "ms r (Map.empty, [])") (auto simp del: ms.simps)
next
  case (Cons c s)
  show ?case
  proof (cases "ms r (Map.empty, c # s)")
    case Nil
    with Cons.prems have "exec r s = Some g" by simp
    from Cons.IH [OF this] obtain k rest where "(g, rest) \<in> set (ms r (Map.empty, drop k s))" by blast
    then have "(g, rest) \<in> set (ms r (Map.empty, drop (Suc k) (c # s)))" by simp
    then show ?thesis by blast
  next
    case (Cons st sts)
    with Cons.prems have "(g, snd st) \<in> set (ms r (Map.empty, drop 0 (c # s)))"
      by (cases st) (simp del: ms.simps)
    then show ?thesis by blast
  qed
qed
section \<open>The identifier extractor\<close>

lemma ms_youtube_dot:
  assumes "ms youtube_pattern (g, s) \<noteq> []"
  shows "CHR ''.'' \<in> set s"
proof -
  from assms obtain st where "st \<in> set (ms youtube_pattern (g, s))"
    by (meson last_in_set)
  then obtain m where
    m: "m \<in> set (ms (Alt (Seq (lit ''youtube.com/'') youtube_paths) (lit ''youtu.be/'')) (g, s))"
    unfolding youtube_pattern_def ms_Seq_in by blast
  then consider (long) st' where "st' \<in> set (ms (lit ''youtube.com/'') (g, s))"
    | (short) "m \<in> set (ms (lit ''youtu.be/'') (g, s))"
    unfolding ms_Alt_in ms_Seq_in by blast
  then show ?thesis
  proof cases
    case long
    from ms_lit [OF long] have "s = ''youtube.com/'' @ snd st'" by simp
    then have "s ! 7 = CHR ''.''" "7 < length s" by simp_all
    then show ?thesis by (metis nth_mem)
  next
    case short
    from ms_lit [OF short] have "s = ''youtu.be/'' @ snd m" by simp
    then have "s ! 5 = CHR ''.''" "5 < length s" by simp_all
    then show ?thesis by (metis nth_mem)
  qed
qed
lemma exec_youtube_no_dot: "CHR ''.'' \<notin> set s \<Longrightarrow> exec youtube_pattern s = None"
proof (induction s)
  case Nil
  have "ms youtube_pattern (Map.empty, []) = []" using ms_youtube_dot [of Map.empty "[]"] by auto
  then show ?case by simp
next
  case (Cons c s)
  have "ms youtube_pattern (Map.empty, c # s) = []"
    using ms_youtube_dot [of Map.empty "c # s"] Cons.prems by blast
  with Cons show ?case by simp
qed
lemma test_bare_iff:
  "test_anchored bare_id_pattern s \<longleftrightarrow> length s = 11 \<and> list_all is_id_char s"
  by (auto simp: test_anchored_def bare_id_pattern_def)
lemma ms_youtube_group:
  assumes "(g', r) \<in> set (ms youtube_pattern (g, s))"
  shows "\<exists>v. g' 1 = Some v \<and> length v = 11 \<and> list_all is_id_char v"
proof -
  from assms obtain m where "(g', r) \<in> set (ms (Grp 1 (Rep 11 is_id_char)) m)"
    unfolding youtube_pattern_def ms_Seq_in by blast
  from ms_Grp_Rep [of g' r 1 11 is_id_char "fst m" "snd m"] this
  show ?thesis by simp
qed
lemma exec_youtube_group:
  assumes "exec youtube_pattern s = Some g"
  shows "\<exists>v. g 1 = Some v \<and> length v = 11 \<and> list_all is_id_char v"
proof -
  from exec_Some_ms [OF assms] obtain k rest where
    "(g, rest) \<in> set (ms youtube_pattern (Map.empty, drop k s))" by blast
  then show ?thesis by (rule ms_youtube_group)
qed
lemma extractVideoId_match:
  assumes "exec youtube_pattern s = Some g"
  shows "\<exists>v. extractVideoId s = Inr v \<and> length v = 11 \<and> list_all is_id_char v"
  using exec_youtube_group [OF assms] assms by (auto simp: extractVideoId_def)
lemma extractVideoId_urls:
  "extractVideoId ''https://www.youtube.com/watch?v=dQw4w9WgXcQ'' = Inr ''dQw4w9WgXcQ''"
  "extractVideoId ''https://www.youtube.com/watch?feature=share&v=dQw4w9WgXcQ&t=42'' = Inr ''dQw4w9WgXcQ''"
  "extractVideoId ''https://youtu.be/dQw4w9WgXcQ'' = Inr ''dQw4w9WgXcQ''"
  "extractVideoId ''https://www.youtube.com/embed/dQw4w9WgXcQ'' = Inr ''dQw4w9WgXcQ''"
  "extractVideoId ''https://www.youtube.com/shorts/dQw4w9WgXcQ'' = Inr ''dQw4w9WgXcQ''"
  "extractVideoId ''https://www.youtube.com/v/dQw4w9WgXcQ'' = Inr ''dQw4w9WgXcQ''"
  "extractVideoId ''youtube.com/user/somebody/dQw4w9WgXcQ'' = Inr ''dQw4w9WgXcQ''"
  by code_simp+
lemma extractVideoId_of_bare:
  assumes "length s = 11" and "list_all is_id_char s"
  shows "extractVideoId s = Inr s"
proof -
  have "\<not> is_id_char CHR ''.''" by (simp add: is_id_char_def)
  with assms(2) have "CHR ''.'' \<notin> set s" unfolding list_all_iff by blast
  then have "exec youtube_pattern s = None" by (rule exec_youtube_no_dot)
  moreover have "test_anchored bare_id_pattern s" using assms by (simp add: test_bare_iff)
  ultimately show ?thesis by (simp add: extractVideoId_def)
qed
text \<open>
  Claim C3. For every string of exactly 11 characters, all of them letters, digits,
  \<open>-\<close> or \<open>_\<close>, \<open>extractVideoId\<close> succeeds and returns the string as it is. (The URL
  pattern needs a dot, which is not in the alphabet, so the first branch is never taken.)
\<close>

theorem extractVideoId_bare:
  assumes "length s = 11" and "list_all is_id_char s"
  shows "extractVideoId s = Inr s"
  using assms by (rule extractVideoId_of_bare)
theorem extractVideoId_bare_witness:
  "length ''dQw4w9WgXcQ'' = 11 \<and> list_all is_id_char ''dQw4w9WgXcQ''
   \<and> extractVideoId ''dQw4w9WgXcQ'' = Inr ''dQw4w9WgXcQ''"
  using extractVideoId_bare [of "''dQw4w9WgXcQ''"] by (simp add: is_id_char_def)
section \<open>Durations\<close>

section \<open>Parsing of the search parameters\<close>

lemma split_on_nonempty: "split_on c s \<noteq> []"
  by (induction s) (auto split: list.splits)
lemma split_on_unfold:
  "split_on c s =
     takeWhile (\<lambda>x. x \<noteq> c) s
     # (if c \<in> set s then split_on c (drop 1 (dropWhile (\<lambda>x. x \<noteq> c) s)) else [])"
proof (induction s)
  case Nil
  then show ?case by simp
next
  case (Cons x s)
  show ?case
  proof (cases "x = c")
    case True
    then show ?thesis by simp
  next
    case False
    then show ?thesis using Cons.IH by (auto split: list.splits)
  qed
qed
lemma split_limit_2:
  assumes "c \<in> set s"
  shows "split_limit c 2 s =
           [takeWhile (\<lambda>x. x \<noteq> c) s,
            takeWhile (\<lambda>x. x \<noteq> c) (drop 1 (dropWhile (\<lambda>x. x \<noteq> c) s))]"
proof -
  let ?rest = "drop 1 (dropWhile (\<lambda>x. x \<noteq> c) s)"
  have "split_on c s = takeWhile (\<lambda>x. x \<noteq> c) s # split_on c ?rest"
    using split_on_unfold [of c s] assms by simp
  moreover obtain p ps where "split_on c ?rest = p # ps" "p = takeWhile (\<lambda>x. x \<noteq> c) ?rest"
    using split_on_unfold [of c ?rest] by blast
  ultimately show ?thesis by (simp add: split_limit_def numeral_2_eq_2)
qed
lemma apply_param_pieces:
  assumes "CHR ''='' \<in> set (trim param)"
  shows "apply_param params param =
     (let key = token_key param; value = token_value param
      in if key = ''count''
         then (case parseInt value of
                 Some count \<Rightarrow> params\<lparr>sp_count := min count 20\<rparr>
               | None \<Rightarrow> params)
         else if key = ''sort'' \<and> value \<in> set [''relevance'', ''date'', ''views'', ''rating'']
         then params\<lparr>sp_sort := value\<rparr>
         else if key = ''recent'' \<and> value \<in> set [''true'', ''yes'', ''1'']
         then params\<lparr>sp_recent := True\<rparr>
         else if key = ''min_views''
         then (case parseInt value of
                 Some minViews \<Rightarrow> params\<lparr>sp_minViews := minViews\<rparr>
               | None \<Rightarrow> params)
         else if key = ''duration'' \<and> value \<in> set [''short'', ''medium'', ''long'']
         then params\<lparr>sp_duration := Some value\<rparr>
         else params)"
  unfolding apply_param_def Let_def split_limit_2 [OF assms] token_key_def token_value_def
  using assms by (simp del: set_simps)
lemma apply_param_no_eq: "CHR ''='' \<notin> set (trim param) \<Longrightarrow> apply_param params param = params"
  by (simp add: apply_param_def)
lemma apply_param_ignored: "ignored_token param \<Longrightarrow> apply_param params param = params"
proof (cases "CHR ''='' \<in> set (trim param)")
  case False
  then show ?thesis by (rule apply_param_no_eq)
next
  case True
  assume "ignored_token param"
  with True have nk: "\<not> known_param (token_key param) (token_value param)"
    by (simp add: ignored_token_def)
  show ?thesis
    unfolding apply_param_pieces [OF True] Let_def
    using nk unfolding known_param_def
    by (auto split: option.splits)
qed
lemma apply_param_count: "sp_count params \<le> 20 \<Longrightarrow> sp_count (apply_param params param) \<le> 20"
proof (cases "CHR ''='' \<in> set (trim param)")
  case False
  assume "sp_count params \<le> 20"
  then show ?thesis by (simp add: apply_param_no_eq [OF False])
next
  case True
  assume "sp_count params \<le> 20"
  then show ?thesis
    unfolding apply_param_pieces [OF True] Let_def
    by (simp split: option.splits)
qed
lemma foldl_apply_param_count:
  "sp_count params \<le> 20 \<Longrightarrow> sp_count (foldl apply_param params ts) \<le> 20"
  by (induction ts arbitrary: params) (simp_all add: apply_param_count)
lemma foldl_apply_param_ignored:
  "list_all ignored_token ts \<Longrightarrow> foldl apply_param params ts = params"
  by (induction ts arbitrary: params) (simp_all add: apply_param_ignored)
lemma parseInput_count: "sp_count (snd (discovery_parseInput input)) \<le> 20"
  by (simp add: discovery_parseInput_def Let_def foldl_apply_param_count default_params_def)
lemma parseInput_example:
  "discovery_parseInput ''cats | count=10, sort=views, recent=true''
     = (''cats'', \<lparr>sp_count = 10, sp_sort = ''views'', sp_recent = True, sp_minViews = 0,
                   sp_duration = None\<rparr>)"
  by code_simp
lemma parseInput_tokens:
  "snd (discovery_parseInput input) = foldl apply_param default_params (param_tokens input)"
proof -
  have "length (split_limit CHR ''|'' 2 input) \<le> 2" by (simp add: split_limit_def)
  then consider "split_limit CHR ''|'' 2 input = []"
    | a where "split_limit CHR ''|'' 2 input = [a]"
    | a b where "split_limit CHR ''|'' 2 input = [a, b]"
    by (cases "split_limit CHR ''|'' 2 input" rule: list.exhaust;
        cases "tl (split_limit CHR ''|'' 2 input)" rule: list.exhaust;
        cases "tl (tl (split_limit CHR ''|'' 2 input))" rule: list.exhaust) auto
  then show ?thesis
    by cases (simp_all add: discovery_parseInput_def param_tokens_def)
qed
text \<open>
  Claim C7. The input \<open>cats | count=10, sort=views, recent=true\<close> is parsed into the query
  \<open>cats\<close> and the parameters count 10, sort \<open>views\<close>, recent true, minViews 0 and duration
  \<open>null\<close>. For every input the parsed count is at most 20. A token with an unknown key or
  an invalid value (or without \<open>=\<close>) leaves the parameters as they are, and when every
  token of an input is such a token the defaults are the result.
\<close>

theorem parseInput_spec:
  "discovery_parseInput ''cats | count=10, sort=views, recent=true''
     = (''cats'', \<lparr>sp_count = 10, sp_sort = ''views'', sp_recent = True, sp_minViews = 0,
                   sp_duration = None\<rparr>)
   \<and> sp_count (snd (discovery_parseInput input)) \<le> 20
   \<and> (ignored_token param \<longrightarrow> apply_param params param = params)
   \<and> (list_all ignored_token (param_tokens input)
        \<longrightarrow> snd (discovery_parseInput input) = default_params)"
  using parseInput_example parseInput_count [of input] apply_param_ignored [of param params]
    foldl_apply_param_ignored [of "param_tokens input" default_params]
  unfolding parseInput_tokens by blast
lemma witness_tokens_ignored:
  "ignored_token ''colour=red''"
  "list_all ignored_token (param_tokens ''cats | colour=red, count=many, sort=up, recent'')"
  by code_simp+
theorem parseInput_spec_witness:
  "ignored_token ''colour=red''
   \<and> apply_param default_params ''colour=red'' = default_params
   \<and> list_all ignored_token (param_tokens ''cats | colour=red, count=many, sort=up, recent'')
   \<and> snd (discovery_parseInput ''cats | colour=red, count=many, sort=up, recent'') = default_params
   \<and> sp_count (snd (discovery_parseInput ''cats | count=500'')) \<le> 20"
  using parseInput_spec [of "''cats | colour=red, count=many, sort=up, recent''" "''colour=red''" default_params]
    parseInput_spec [of "''cats | count=500''" "''colour=red''" default_params]
    witness_tokens_ignored
  by blast
section \<open>The catalogue of formats\<close>

section \<open>Summaries of transcripts\<close>

lemma join_split_on: "join [c] (split_on c s) = s"
proof (induction s)
  case Nil
  then show ?case by simp
next
  case (Cons x s)
  show ?case
  proof (cases "x = c")
    case True
    obtain p ps where "split_on c s = p # ps" using split_on_nonempty [of c s] by (cases "split_on c s") auto
    with Cons.IH True show ?thesis by simp
  next
    case False
    obtain p ps where ps: "split_on c s = p # ps" using split_on_nonempty [of c s] by (cases "split_on c s") auto
    with Cons.IH False show ?thesis by (cases ps) auto
  qed
qed
text \<open>In the transcript tool the dots are appended only to a transcript of more than 100
  pieces; a shorter one is its own summary.\<close>

lemma processTranscript_summary:
  assumes "segments \<noteq> []"
  shows "\<exists>t. get_field ''transcript'' (processTranscript (Some segments) videoId language) = JStr t
           \<and> get_field ''summary'' (processTranscript (Some segments) videoId language)
               = JStr (if length (split_on CHR '' '' t) \<le> 100 then t
                       else join '' '' (take 100 (split_on CHR '' '' t)) @ ''...'')"
proof -
  have j: "\<And>t. join '' '' (split_on CHR '' '' t) = t" by (rule join_split_on)
  show ?thesis
    using assms by (auto simp: processTranscript_def Let_def j not_less)
qed
text \<open>
  Claim C9. The summary of a transcript result is the first 100 words of the transcript,
  with \<open>...\<close> appended if and only if the transcript has more than 100 words. In the
  route's \<open>fetchTranscriptDirectly\<close> the dots are appended always: the transcript
  \<open>hello world\<close> of two words gets the summary \<open>hello world...\<close>.
\<close>

theorem fetchTranscriptDirectly_summary_short:
  "get_field ''summary'' (fetchTranscriptDirectly_result ''dQw4w9WgXcQ'' (Some ''en'') example_transcript)
     = JStr ''hello world...''"
  by (simp add: fetchTranscriptDirectly_result_def example_transcript_def is_space_def)
section \<open>The filter for recent videos\<close>

lemma recent_keep_iff:
  "recent_keep newDate twoYearsAgo v \<longleftrightarrow>
     (case uploadedAt v of
        None \<Rightarrow> True
      | Some u \<Rightarrow> u = [] \<or> (\<exists>t. newDate u = Some t \<and> t > twoYearsAgo))"
  by (auto simp: recent_keep_def split: option.splits)
text \<open>
  Claim C10. With \<open>recent\<close> set, an item without upload date is kept, and only items whose
  upload date is two years old or older are removed. The filter also removes an item
  whose upload date is no valid date: of the three items below, the second has the upload
  date \<open>3 weeks ago\<close> and is removed.
\<close>

theorem recent_filter_invalid_date:
  "recent_filter example_newDate 1719792000000 True example_videos
     = [\<lparr>video_id = ''a'', uploadedAt = None\<rparr>, \<lparr>video_id = ''c'', uploadedAt = Some ''2026-01-01''\<rparr>]"
  by (simp add: recent_filter_def recent_keep_def example_newDate_def example_videos_def)
section \<open>The cache\<close>

lemma cache_hit_Some_iff:
  "cache_hit ttl c k now = Some p \<longleftrightarrow> (\<exists>e. c k = Some e \<and> now - timestamp e < ttl \<and> data e = p)"
  by (auto simp: cache_hit_def split: option.splits)
lemma cache_hit_fresh:
  "fresh ttl c k now \<Longrightarrow> \<exists>e. c k = Some e \<and> cache_hit ttl c k now = Some (data e)"
  by (auto simp: cache_hit_def fresh_def split: option.splits)
lemma cache_hit_stale: "\<not> fresh ttl c k now \<Longrightarrow> cache_hit ttl c k now = None"
  by (auto simp: cache_hit_def fresh_def split: option.splits)
lemma fetchTranscript_hit:
  assumes "fresh TRANSCRIPT_CACHE_TTL (cache st) (transcript_cacheKey videoId language) (now_check w)"
  shows "\<exists>e. cache st (transcript_cacheKey videoId language) = Some e
             \<and> fetchTranscript w st videoId language = (Inr (data e), st)"
  using cache_hit_fresh [OF assms] by (auto simp: fetchTranscript_def)
lemma fetchTranscript_miss:
  assumes "\<not> fresh TRANSCRIPT_CACHE_TTL (cache st) (transcript_cacheKey videoId language) (now_check w)"
  shows "requests (snd (fetchTranscript w st videoId language))
           = requests st @ [transcript_endpoint videoId language]
         \<and> dom (cache st) \<subseteq> dom (cache (snd (fetchTranscript w st videoId language)))"
  using cache_hit_stale [OF assms]
  by (auto simp: fetchTranscript_def Let_def split: sum.splits)
lemma fetchVideoInfo_hit:
  assumes "fresh VIDEO_CACHE_TTL (cache st) videoId (now_check w)"
  shows "\<exists>e. cache st videoId = Some e
             \<and> fetchVideoInfo processVideoInfo w st videoId = (Inr (data e), st)"
  using cache_hit_fresh [OF assms] by (auto simp: fetchVideoInfo_def)
lemma fetchVideoInfo_miss:
  assumes "\<not> fresh VIDEO_CACHE_TTL (cache st) videoId (now_check w)"
  shows "requests (snd (fetchVideoInfo processVideoInfo w st videoId))
           = requests st @ [Get (''/api/youtube/video?videoId='' @ videoId)]
         \<and> dom (cache st) \<subseteq> dom (cache (snd (fetchVideoInfo processVideoInfo w st videoId)))"
  using cache_hit_stale [OF assms]
  by (auto simp: fetchVideoInfo_def Let_def split: sum.splits)
text \<open>
  Claim C2. A lookup of key \<open>k\<close> at time \<open>now\<close> is a hit with the stored payload exactly
  when an entry for \<open>k\<close> exists and \<open>now - storedAt < TTL\<close>. On a hit \<open>fetchTranscript\<close> and
  \<open>fetchVideoInfo\<close> return the stored payload and leave the state as it is: no request is
  sent. Otherwise (no entry, or \<open>now - storedAt \<ge> TTL\<close>) exactly one request is sent, and
  no entry is removed from the cache.
\<close>

theorem cache_get_spec:
  "(cache_hit ttl c k now = Some p
      \<longleftrightarrow> (\<exists>e. c k = Some e \<and> now - timestamp e < ttl \<and> data e = p))
   \<and> (fresh TRANSCRIPT_CACHE_TTL (cache st) (transcript_cacheKey videoId language) (now_check wt)
        \<longrightarrow> (\<exists>e. cache st (transcript_cacheKey videoId language) = Some e
                  \<and> fetchTranscript wt st videoId language = (Inr (data e), st)))
   \<and> (\<not> fresh TRANSCRIPT_CACHE_TTL (cache st) (transcript_cacheKey videoId language) (now_check wt)
        \<longrightarrow> requests (snd (fetchTranscript wt st videoId language))
               = requests st @ [transcript_endpoint videoId language]
            \<and> dom (cache st) \<subseteq> dom (cache (snd (fetchTranscript wt st videoId language))))
   \<and> (fresh VIDEO_CACHE_TTL (cache st) videoId (now_check wv)
        \<longrightarrow> (\<exists>e. cache st videoId = Some e
                  \<and> fetchVideoInfo processVideoInfo wv st videoId = (Inr (data e), st)))
   \<and> (\<not> fresh VIDEO_CACHE_TTL (cache st) videoId (now_check wv)
        \<longrightarrow> requests (snd (fetchVideoInfo processVideoInfo wv st videoId))
               = requests st @ [Get (''/api/youtube/video?videoId='' @ videoId)]
            \<and> dom (cache st) \<subseteq> dom (cache (snd (fetchVideoInfo processVideoInfo wv st videoId))))"
  using cache_hit_Some_iff [of ttl c k now p]
    fetchTranscript_hit [of st videoId language wt] fetchTranscript_miss [of st videoId language wt]
    fetchVideoInfo_hit [of st videoId wv processVideoInfo]
    fetchVideoInfo_miss [of st videoId wv processVideoInfo]
  by blast
theorem cache_get_spec_witness:
  "fresh TRANSCRIPT_CACHE_TTL (cache example_state) (transcript_cacheKey ''dQw4w9WgXcQ'' None) 3600999
   \<and> fetchTranscript (world_ok 3600999 (Some example_transcript)) example_state ''dQw4w9WgXcQ'' None
       = (Inr example_payload, example_state)
   \<and> \<not> fresh TRANSCRIPT_CACHE_TTL (cache example_state) (transcript_cacheKey ''dQw4w9WgXcQ'' None) 3601000
   \<and> requests (snd (fetchTranscript (world_ok 3601000 (Some example_transcript)) example_state
                      ''dQw4w9WgXcQ'' None))
       = [Get ''/api/youtube/transcript?videoId=dQw4w9WgXcQ'']
   \<and> fresh VIDEO_CACHE_TTL (cache example_state) ''dQw4w9WgXcQ'' 3600999
   \<and> fetchVideoInfo Inr (world_ok 3600999 JNull) example_state ''dQw4w9WgXcQ''
       = (Inr example_payload, example_state)
   \<and> \<not> fresh VIDEO_CACHE_TTL (cache example_state) ''dQw4w9WgXcQ'' 3601000
   \<and> requests (snd (fetchVideoInfo Inr (world_ok 3601000 JNull) example_state ''dQw4w9WgXcQ''))
       = [Get ''/api/youtube/video?videoId=dQw4w9WgXcQ'']"
proof -
  have f1: "fresh TRANSCRIPT_CACHE_TTL (cache example_state) (transcript_cacheKey ''dQw4w9WgXcQ'' None)
              (now_check (world_ok 3600999 (Some example_transcript)))"
    by (simp add: fresh_def example_state_def transcript_cacheKey_def TRANSCRIPT_CACHE_TTL_def world_ok_def)
  have f2: "\<not> fresh TRANSCRIPT_CACHE_TTL (cache example_state) (transcript_cacheKey ''dQw4w9WgXcQ'' None)
              (now_check (world_ok 3601000 (Some example_transcript)))"
    by (simp add: fresh_def example_state_def transcript_cacheKey_def TRANSCRIPT_CACHE_TTL_def world_ok_def)
  have f3: "fresh VIDEO_CACHE_TTL (cache example_state) ''dQw4w9WgXcQ'' (now_check (world_ok 3600999 JNull))"
    by (simp add: fresh_def example_state_def VIDEO_CACHE_TTL_def world_ok_def)
  have f4: "\<not> fresh VIDEO_CACHE_TTL (cache example_state) ''dQw4w9WgXcQ'' (now_check (world_ok 3601000 JNull))"
    by (simp add: fresh_def example_state_def VIDEO_CACHE_TTL_def world_ok_def)
  have k: "cache example_state (transcript_cacheKey ''dQw4w9WgXcQ'' None)
             = Some \<lparr>data = example_payload, timestamp = 1000\<rparr>"
    "cache example_state ''dQw4w9WgXcQ'' = Some \<lparr>data = example_payload, timestamp = 1000\<rparr>"
    by (simp_all add: example_state_def transcript_cacheKey_def)
  have r: "requests example_state = []" by (simp add: example_state_def)
  have e: "transcript_endpoint ''dQw4w9WgXcQ'' None = Get ''/api/youtube/transcript?videoId=dQw4w9WgXcQ''"
    by (simp add: transcript_endpoint_def)
  note a = cache_get_spec [where st = example_state and videoId = "''dQw4w9WgXcQ''" and language = None
      and wt = "world_ok 3600999 (Some example_transcript)" and wv = "world_ok 3600999 JNull"
      and processVideoInfo = Inr]
  note b = cache_get_spec [where st = example_state and videoId = "''dQw4w9WgXcQ''" and language = None
      and wt = "world_ok 3601000 (Some example_transcript)" and wv = "world_ok 3601000 JNull"
      and processVideoInfo = Inr]
  from a f1 k(1) have h1: "fetchTranscript (world_ok 3600999 (Some example_transcript)) example_state
      ''dQw4w9WgXcQ'' None = (Inr example_payload, example_state)" by auto
  from a f3 k(2) have h3: "fetchVideoInfo Inr (world_ok 3600999 JNull) example_state ''dQw4w9WgXcQ''
       = (Inr example_payload, example_state)" by auto
  from b f2 r e have h2: "requests (snd (fetchTranscript (world_ok 3601000 (Some example_transcript))
      example_state ''dQw4w9WgXcQ'' None)) = [Get ''/api/youtube/transcript?videoId=dQw4w9WgXcQ'']"
    by auto
  from b f4 r have h4: "requests (snd (fetchVideoInfo Inr (world_ok 3601000 JNull) example_state ''dQw4w9WgXcQ''))
       = [Get ''/api/youtube/video?videoId=dQw4w9WgXcQ'']" by auto
  from f1 f2 f3 f4 have g: "fresh TRANSCRIPT_CACHE_TTL (cache example_state) (transcript_cacheKey ''dQw4w9WgXcQ'' None) 3600999"
    "\<not> fresh TRANSCRIPT_CACHE_TTL (cache example_state) (transcript_cacheKey ''dQw4w9WgXcQ'' None) 3601000"
    "fresh VIDEO_CACHE_TTL (cache example_state) ''dQw4w9WgXcQ'' 3600999"
    "\<not> fresh VIDEO_CACHE_TTL (cache example_state) ''dQw4w9WgXcQ'' 3601000"
    by (simp_all add: world_ok_def)
  from g h1 h2 h3 h4 show ?thesis by blast
qed
section \<open>The public operations\<close>

lemma transcript_catch_type:
  "error_with_type [''transcript_error'', ''system_error''] (transcript_catch e)"
  by (cases e) (simp_all add: error_with_type_def)
lemma discovery_catch_type:
  "error_with_type [''search_error'', ''system_error''] (discovery_catch input e)"
  by (cases e) (simp_all add: error_with_type_def)
lemma download_catch_type:
  "error_with_type [''download_error'', ''system_error''] (download_catch input e)"
  by (cases e) (simp_all add: error_with_type_def)
lemma video_catch_type:
  "error_with_type [''video_info_error'', ''system_error''] (video_catch input e)"
  by (cases e) (simp_all add: error_with_type_def)
lemma transcript_execute_returns:
  "\<exists>v st'. youtubeTranscriptTool_execute w st input = (Inr v, st')
      \<and> (error_with_type [''transcript_error'', ''system_error''] v
          \<or> (\<exists>videoId language. fetchTranscript w st videoId language = (Inr v, st')))"
proof -
  let ?parts = "split_limit CHR ''|'' 2 input"
  let ?videoInput = "trim (case ?parts of p # _ \<Rightarrow> p | [] \<Rightarrow> [])"
  let ?language = "if length ?parts > 1 then Some (trim (?parts ! 1)) else None"
  let ?inner = "case extractVideoId ?videoInput of
                 Inl e \<Rightarrow> (Inl e, st)
               | Inr videoId \<Rightarrow> fetchTranscript w st videoId ?language"
  obtain r st' where inner: "?inner = (r, st')" by (cases ?inner)
  have ex: "youtubeTranscriptTool_execute w st input
              = (case r of Inr v \<Rightarrow> (Inr v, st') | Inl e \<Rightarrow> (Inr (transcript_catch e), st'))"
    unfolding youtubeTranscriptTool_execute_def Let_def inner by (simp split: sum.splits)
  show ?thesis
  proof (cases r)
    case (Inr v)
    with inner obtain videoId where "fetchTranscript w st videoId ?language = (Inr v, st')"
      by (cases "extractVideoId ?videoInput") auto
    with ex Inr show ?thesis by auto
  next
    case (Inl e)
    with ex transcript_catch_type [of e] show ?thesis by simp
  qed
qed
lemma discovery_execute_returns:
  "\<exists>v st'. youtubeDiscoveryTool_execute p w st input = (Inr v, st')
      \<and> (error_with_type [''search_error'', ''system_error''] v
          \<or> (\<exists>query params. searchVideos p w st query params = (Inr v, st')))"
proof -
  obtain query params where pi: "discovery_parseInput input = (query, params)"
    by (cases "discovery_parseInput input")
  show ?thesis
  proof (cases "query = []")
    case True
    with pi show ?thesis
      by (simp add: youtubeDiscoveryTool_execute_def error_with_type_def)
  next
    case False
    obtain r st' where inner: "searchVideos p w st query params = (r, st')"
      by (cases "searchVideos p w st query params")
    from pi False inner have ex: "youtubeDiscoveryTool_execute p w st input
              = (case r of Inr v \<Rightarrow> (Inr v, st') | Inl e \<Rightarrow> (Inr (discovery_catch input e), st'))"
      by (simp add: youtubeDiscoveryTool_execute_def split: sum.splits)
    show ?thesis
    proof (cases r)
      case (Inr v)
      with ex inner show ?thesis by auto
    next
      case (Inl e)
      with ex discovery_catch_type [of input e] show ?thesis by simp
    qed
  qed
qed
lemma download_execute_returns:
  "\<exists>v st'. youtubeDownloadTool_execute q w st input = (Inr v, st')
      \<and> (error_with_type [''download_error'', ''system_error''] v
          \<or> (\<exists>videoId mode. getVideoInfo q w st videoId mode = (Inr v, st')))"
proof -
  let ?inner = "case download_parseInput input of
              Inl e \<Rightarrow> (Inl e, st)
            | Inr (videoId, mode) \<Rightarrow> getVideoInfo q w st videoId mode"
  obtain r st' where inner: "?inner = (r, st')" by (cases ?inner)
  have ex: "youtubeDownloadTool_execute q w st input
              = (case r of Inr v \<Rightarrow> (Inr v, st') | Inl e \<Rightarrow> (Inr (download_catch input e), st'))"
    unfolding youtubeDownloadTool_execute_def inner by (simp split: sum.splits)
  show ?thesis
  proof (cases r)
    case (Inr v)
    with inner obtain videoId mode where "getVideoInfo q w st videoId mode = (Inr v, st')"
      by (cases "download_parseInput input") auto
    with ex Inr show ?thesis by auto
  next
    case (Inl e)
    with ex download_catch_type [of input e] show ?thesis by simp
  qed
qed
lemma video_execute_returns:
  "\<exists>v st'. youtubeVideoTool_execute q w st input = (Inr v, st')
      \<and> (error_with_type [''video_info_error'', ''system_error''] v
          \<or> (\<exists>videoId. fetchVideoInfo q w st videoId = (Inr v, st')))"
proof -
  let ?inner = "case extractVideoId (trim input) of
              Inl e \<Rightarrow> (Inl e, st)
            | Inr videoId \<Rightarrow> fetchVideoInfo q w st videoId"
  obtain r st' where inner: "?inner = (r, st')" by (cases ?inner)
  have ex: "youtubeVideoTool_execute q w st input
              = (case r of Inr v \<Rightarrow> (Inr v, st') | Inl e \<Rightarrow> (Inr (video_catch input e), st'))"
    unfolding youtubeVideoTool_execute_def inner by (simp split: sum.splits)
  show ?thesis
  proof (cases r)
    case (Inr v)
    with inner obtain videoId where "fetchVideoInfo q w st videoId = (Inr v, st')"
      by (cases "extractVideoId (trim input)") auto
    with ex Inr show ?thesis by auto
  next
    case (Inl e)
    with ex video_catch_type [of input e] show ?thesis by simp
  qed
qed
text \<open>
  Claim C5, as amended. For every input, state and behaviour of the outside, the
  \<open>execute\<close> operation of the transcript, the discovery, the download and the video tool
  returns a value and throws nothing. The value is an object with an \<open>error\<close> field and
  a \<open>type\<close> tag (\<open>transcript_error\<close>, \<open>search_error\<close>, \<open>download_error\<close> or
  \<open>video_info_error\<close>, or \<open>system_error\<close>), or it is what the adapter returned: a payload
  from the cache or from the shaping step.
\<close>

theorem execute_returns_value:
  "(\<exists>v st'. youtubeTranscriptTool_execute wt st input = (Inr v, st')
      \<and> (error_with_type [''transcript_error'', ''system_error''] v
          \<or> (\<exists>videoId language. fetchTranscript wt st videoId language = (Inr v, st'))))
   \<and> (\<exists>v st'. youtubeDiscoveryTool_execute p w st input = (Inr v, st')
      \<and> (error_with_type [''search_error'', ''system_error''] v
          \<or> (\<exists>query params. searchVideos p w st query params = (Inr v, st'))))
   \<and> (\<exists>v st'. youtubeDownloadTool_execute q w st input = (Inr v, st')
      \<and> (error_with_type [''download_error'', ''system_error''] v
          \<or> (\<exists>videoId mode. getVideoInfo q w st videoId mode = (Inr v, st'))))
   \<and> (\<exists>v st'. youtubeVideoTool_execute r w st input = (Inr v, st')
      \<and> (error_with_type [''video_info_error'', ''system_error''] v
          \<or> (\<exists>videoId. fetchVideoInfo r w st videoId = (Inr v, st'))))"
  using transcript_execute_returns [of wt st input] discovery_execute_returns [of p w st input]
    download_execute_returns [of q w st input] video_execute_returns [of r w st input]
  by (intro conjI)
text \<open>
  The claim C5 as it was stated fails in its description of the value: for an empty
  transcript the transcript tool returns the payload of the shaping step, which has an
  \<open>error\<close> field and no \<open>type\<close>.
\<close>

theorem execute_error_without_type:
  "fst (youtubeTranscriptTool_execute (world_ok 1000 (Some [])) initial_state ''dQw4w9WgXcQ'')
     = Inr no_transcript_payload
   \<and> has_field ''error'' no_transcript_payload
   \<and> \<not> has_field ''type'' no_transcript_payload"
proof -
  have x: "extractVideoId ''dQw4w9WgXcQ'' = Inr ''dQw4w9WgXcQ''"
    by (rule extractVideoId_of_bare) (simp_all add: is_id_char_def)
  have f: "fetchTranscript (world_ok 1000 (Some [])) initial_state ''dQw4w9WgXcQ'' None
     = (Inr no_transcript_payload,
        \<lparr>cache = [''dQw4w9WgXcQ'' \<mapsto> \<lparr>data = no_transcript_payload, timestamp = 1005\<rparr>],
         requests = [Get ''/api/youtube/transcript?videoId=dQw4w9WgXcQ'']\<rparr>)"
    by (simp add: fetchTranscript_def world_ok_def initial_state_def transcript_cacheKey_def
        transcript_endpoint_def cache_hit_def processTranscript_def no_transcript_payload_def
        Let_def)
  have p: "split_limit CHR ''|'' 2 ''dQw4w9WgXcQ'' = [''dQw4w9WgXcQ'']"
    by (simp add: split_limit_def)
  have t: "trim ''dQw4w9WgXcQ'' = ''dQw4w9WgXcQ''"
    by (simp add: trim_def is_space_def)
  show ?thesis
    by (simp add: youtubeTranscriptTool_execute_def p t x f no_transcript_payload_def)
qed

end
